theory Spec2Isabelle
  imports Complex_Main "HOL-Library.Multiset"
begin

section \<open>Traffic forecast with customer adjustment (frontend.py)\<close>

text \<open>
  The script reads a table with the columns \<open>time_sec\<close> and \<open>AVG_Total_Traffic\<close>, sorts it by
  time, asks statsmodels for a Holt-Winters forecast, estimates the traffic per customer from
  the first and last 14 rows, and ramps a customer-driven correction over the forecast.

  Conventions of the embedding:
  \<^item> a pandas timestamp is an \<open>int\<close>, the nanoseconds since the epoch (time-zone naive, every
    row has a parsed timestamp);
  \<^item> a float64 is a \<open>real\<close>; a cell of the traffic column is a \<open>real option\<close>, \<open>None\<close> being
    NaN (a missing value), which the script tests for with \<open>np.isnan\<close>. Rounding and
    infinities are not modelled;
  \<^item> the Python ints returned by the four \<open>st.number_input\<close> widgets (their \<open>value\<close> and
    \<open>step\<close> are ints) are \<open>int\<close>;
  \<^item> the statsmodels calls of lines 37 to 40 are a library outside the repository: what they
    return for the sorted series, \<open>SEASONAL_PERIODS\<close> and \<open>FORECAST_DAYS\<close> is an input of the
    model, \<open>None\<close> when the library raised and \<open>Some\<close> of the forecast values otherwise;
  \<^item> an exception ends the script: the model returns \<open>Inl\<close> of it.
\<close>

subsection \<open>Data\<close>

type_synonym timestamp = int

type_synonym row = "timestamp \<times> real option"

datatype py_error =
  ValueError | ZeroDivisionError | AttributeError | OverflowError | ForecasterError

record forecast_frame =
  time_sec :: "timestamp list"
  Forecast_raw :: "real list"
  Adjusted :: "real list"

record run_result =
  series :: "row list"
  forecast_df :: forecast_frame
  traffic_per_customer_out :: real

subsection \<open>Lines 29 to 34: the series and its last date\<close>

definition sort_index :: "row list \<Rightarrow> row list" where
  \<comment> \<open>\<open>df[...].astype(float).sort_index()\<close>: ascending by time, every row kept. Rows with
      the same timestamp stay in their uploaded order here; pandas does not fix their order.\<close>
  "sort_index rows = sort_key fst rows"

definition index_max :: "row list \<Rightarrow> timestamp option" where
  \<comment> \<open>\<open>series.index.max()\<close>; \<open>None\<close> is NaT, the maximum of an empty index.\<close>
  "index_max s = (case map fst s of [] \<Rightarrow> None | t # ts \<Rightarrow> Some (fold max ts t))"

definition day_ns :: int where
  "day_ns = 86400000000000"

definition normalize :: "timestamp \<Rightarrow> timestamp" where
  \<comment> \<open>\<open>Timestamp.normalize()\<close>: midnight of the same day.\<close>
  "normalize t = t - t mod day_ns"

definition day_of :: "timestamp \<Rightarrow> int" where
  "day_of t = t div day_ns"

definition last_hist_date :: "row list \<Rightarrow> py_error + timestamp" where
  \<comment> \<open>line 34, \<open>series.index.max().normalize()\<close>: NaT has no \<open>normalize\<close>.\<close>
  "last_hist_date s =
     (case index_max s of None \<Rightarrow> Inl AttributeError | Some t \<Rightarrow> Inr (normalize t))"

subsection \<open>Line 41: the forecast dates\<close>

definition date_range :: "timestamp \<Rightarrow> int \<Rightarrow> py_error + timestamp list" where
  \<comment> \<open>\<open>pd.date_range(start, periods=n, freq="D")\<close>: a negative number of periods is
      rejected.\<close>
  "date_range start periods =
     (if periods < 0 then Inl OverflowError
      else Inr (map (\<lambda>k. start + int k * day_ns) [0..<nat periods]))"

definition forecast_dates :: "timestamp \<Rightarrow> int \<Rightarrow> py_error + timestamp list" where
  \<comment> \<open>the first argument is the value of the variable \<open>last_hist_date\<close>\<close>
  "forecast_dates last_date FORECAST_DAYS = date_range (last_date + 1 * day_ns) FORECAST_DAYS"

subsection \<open>Lines 46 to 53: traffic per customer\<close>

definition head_pd :: "nat \<Rightarrow> 'a list \<Rightarrow> 'a list" where
  \<comment> \<open>\<open>series.head(n)\<close>\<close>
  "head_pd n xs = take n xs"

definition tail_pd :: "nat \<Rightarrow> 'a list \<Rightarrow> 'a list" where
  \<comment> \<open>\<open>series.tail(n)\<close> for \<open>n > 0\<close>: the last \<open>n\<close> rows, all of them when there are fewer.\<close>
  "tail_pd n xs = (if length xs \<le> n then xs else drop (length xs - n) xs)"

definition present :: "real option list \<Rightarrow> real list" where
  \<comment> \<open>the cells that are not NaN\<close>
  "present cells = concat (map (\<lambda>c. case c of None \<Rightarrow> [] | Some v \<Rightarrow> [v]) cells)"

definition mean_pd :: "real option list \<Rightarrow> real option" where
  \<comment> \<open>\<open>Series.mean()\<close> skips NaN; the mean of no value at all is NaN.\<close>
  "mean_pd cells =
     (let vs = present cells
      in if vs = [] then None else Some (sum_list vs / real (length vs)))"

definition start_mean :: "row list \<Rightarrow> real option" where
  "start_mean s = mean_pd (map snd (head_pd 14 s))"

definition end_mean :: "row list \<Rightarrow> real option" where
  "end_mean s = mean_pd (map snd (tail_pd 14 s))"

definition traffic_per_customer :: "row list \<Rightarrow> int \<Rightarrow> real" where
  "traffic_per_customer s HIST_CUSTOMER_DROP =
     (case (start_mean s, end_mean s) of
        (Some a, Some b) \<Rightarrow>
          (let change = a - b
           in if HIST_CUSTOMER_DROP \<noteq> 0 then change / real_of_int HIST_CUSTOMER_DROP else 0)
      | _ \<Rightarrow> 0)"

subsection \<open>Lines 56 to 62: the adjustment\<close>

definition daily_change :: "int \<Rightarrow> int \<Rightarrow> py_error + real" where
  \<comment> \<open>\<open>FORECAST_CUSTOMER_DROP / FORECAST_DAYS\<close> on two Python ints\<close>
  "daily_change FORECAST_CUSTOMER_DROP FORECAST_DAYS =
     (if FORECAST_DAYS = 0 then Inl ZeroDivisionError
      else Inr (real_of_int FORECAST_CUSTOMER_DROP / real_of_int FORECAST_DAYS))"

definition cum_change :: "int \<Rightarrow> real \<Rightarrow> real list" where
  \<comment> \<open>\<open>np.arange(1, FORECAST_DAYS + 1) * daily_change\<close>\<close>
  "cum_change FORECAST_DAYS dc = map (\<lambda>i. real_of_int i * dc) [1..FORECAST_DAYS]"

definition adjustment :: "int \<Rightarrow> real \<Rightarrow> real \<Rightarrow> real list" where
  "adjustment FORECAST_DAYS dc tpc = map (\<lambda>c. c * tpc) (cum_change FORECAST_DAYS dc)"

definition np_subtract :: "real list \<Rightarrow> real list \<Rightarrow> py_error + real list" where
  \<comment> \<open>\<open>a - b\<close> on one-dimensional arrays: elementwise, an array of one element is broadcast,
      any other difference of lengths is rejected.\<close>
  "np_subtract xs ys =
     (if length xs = length ys then Inr (map (\<lambda>(x, y). x - y) (zip xs ys))
      else if length ys = 1 then Inr (map (\<lambda>x. x - hd ys) xs)
      else if length xs = 1 then Inr (map (\<lambda>y. hd xs - y) ys)
      else Inl ValueError)"

definition set_column :: "nat \<Rightarrow> real list \<Rightarrow> py_error + real list" where
  \<comment> \<open>\<open>forecast_df["Adjusted"] = values\<close> on a frame of \<open>n\<close> rows\<close>
  "set_column n vs = (if length vs = n then Inr vs else Inl ValueError)"

definition clip_lower :: "real \<Rightarrow> real list \<Rightarrow> real list" where
  \<comment> \<open>\<open>Series.clip(lower=l)\<close>\<close>
  "clip_lower l vs = map (max l) vs"

definition adjust_forecast :: "real list \<Rightarrow> real \<Rightarrow> int \<Rightarrow> int \<Rightarrow> py_error + real list" where
  \<comment> \<open>the column \<open>Adjusted\<close> after lines 56 to 62, from the column \<open>Forecast_raw\<close>\<close>
  "adjust_forecast raw tpc FORECAST_CUSTOMER_DROP FORECAST_DAYS =
     (if FORECAST_CUSTOMER_DROP \<noteq> 0 \<and> tpc \<noteq> 0 then
        (case daily_change FORECAST_CUSTOMER_DROP FORECAST_DAYS of
           Inl e \<Rightarrow> Inl e
         | Inr dc \<Rightarrow>
             (case np_subtract raw (adjustment FORECAST_DAYS dc tpc) of
                Inl e \<Rightarrow> Inl e
              | Inr diff \<Rightarrow>
                  (case set_column (length raw) diff of
                     Inl e \<Rightarrow> Inl e
                   | Inr col \<Rightarrow> Inr (clip_lower 0 col))))
      else Inr raw)"

subsection \<open>The script, lines 29 to 62\<close>

definition pipeline ::
  "row list \<Rightarrow> int \<Rightarrow> int \<Rightarrow> int \<Rightarrow> real list option \<Rightarrow> py_error + run_result"
where
  \<comment> \<open>\<open>hw\<close> is what \<open>ExponentialSmoothing(...).fit().forecast(FORECAST_DAYS).values\<close> gave.\<close>
  "pipeline rows HIST_CUSTOMER_DROP FORECAST_CUSTOMER_DROP FORECAST_DAYS hw =
     (let s = sort_index rows
      in case last_hist_date s of
           Inl e \<Rightarrow> Inl e
         | Inr last_date \<Rightarrow>
             (case hw of
                None \<Rightarrow> Inl ForecasterError
              | Some forecast \<Rightarrow>
                  (case forecast_dates last_date FORECAST_DAYS of
                     Inl e \<Rightarrow> Inl e
                   | Inr dates \<Rightarrow>
                       if length forecast \<noteq> length dates then Inl ValueError
                       else
                         (let tpc = traffic_per_customer s HIST_CUSTOMER_DROP
                          in case adjust_forecast forecast tpc FORECAST_CUSTOMER_DROP
                                    FORECAST_DAYS of
                               Inl e \<Rightarrow> Inl e
                             | Inr adj \<Rightarrow>
                                 Inr \<lparr>series = s,
                                      forecast_df =
                                        \<lparr>time_sec = dates, Forecast_raw = forecast,
                                         Adjusted = adj\<rparr>,
                                      traffic_per_customer_out = tpc\<rparr>))))"

subsection \<open>The estimator as the specification words it\<close>

text \<open>
  The reference the estimator is compared with: windows of \<open>min(14, n)\<close> observations, a
  mean that is undefined when every observation of the window is missing, and the coefficient
  0 when the historical customer change is 0 or a mean is undefined.
\<close>

definition spec_mean :: "real option list \<Rightarrow> real option" where
  "spec_mean w =
     (if list_all (\<lambda>c. c = None) w then None
      else Some (sum_list (present w) / real (length (present w))))"

definition sensitivity_reference :: "real option list \<Rightarrow> int \<Rightarrow> real" where
  "sensitivity_reference obs h =
     (let n = length obs;
          w = min 14 n;
          head = spec_mean (take w obs);
          tail = spec_mean (drop (n - w) obs)
      in if h = 0 \<or> head = None \<or> tail = None then 0
         else (the head - the tail) / real_of_int h)"

subsection \<open>Sample inputs\<close>

definition ramp_rows :: "row list" where
  \<comment> \<open>60 days, one row a day, the values 100, 101, ..., 159\<close>
  "ramp_rows = map (\<lambda>k. (int k * day_ns, Some (100 + real k))) [0..<60]"

definition step_rows :: "row list" where
  \<comment> \<open>15 days: 14 on the first day, 0 afterwards\<close>
  "step_rows = map (\<lambda>k. (int k * day_ns, Some (if k = 0 then 14 else 0))) [0..<15]"

definition step_result :: run_result where
  "step_result =
     \<lparr>series = step_rows,
      forecast_df =
        \<lparr>time_sec = [15 * day_ns, 16 * day_ns], Forecast_raw = [-5, 7], Adjusted = [0, 6]\<rparr>,
      traffic_per_customer_out = 1\<rparr>"

definition passthrough_result :: run_result where
  \<comment> \<open>one historical row, a forecast of one day with the value \<open>-1\<close>, no customer change\<close>
  "passthrough_result =
     \<lparr>series = [(0, Some 5)],
      forecast_df = \<lparr>time_sec = [1 * day_ns], Forecast_raw = [-1], Adjusted = [-1]\<rparr>,
      traffic_per_customer_out = 0\<rparr>"

section \<open>Properties\<close>

subsection \<open>The adjustment array\<close>

lemma length_adjustment: "length (adjustment n dc tpc) = nat n"
  by (simp add: adjustment_def cum_change_def)

lemma nth_adjustment:
  "k < nat n \<Longrightarrow> adjustment n dc tpc ! k = real_of_int (int k + 1) * dc * tpc"
  by (simp add: adjustment_def cum_change_def)

lemma sorted_adjustment:
  assumes "0 \<le> dc" and "0 \<le> tpc"
  shows "sorted (adjustment n dc tpc)"
proof -
  have "adjustment n dc tpc ! i \<le> adjustment n dc tpc ! j"
    if "i \<le> j" "j < length (adjustment n dc tpc)" for i j
  proof -
    have "real_of_int (int i + 1) * dc * tpc \<le> real_of_int (int j + 1) * dc * tpc"
      using that assms by (intro mult_right_mono) auto
    then show ?thesis
      using that by (simp add: length_adjustment nth_adjustment)
  qed
  then show ?thesis
    by (simp add: sorted_iff_nth_mono)
qed

subsection \<open>The adjuster\<close>

lemma adjust_forecast_passthrough:
  "fcd = 0 \<or> tpc = 0 \<Longrightarrow> adjust_forecast raw tpc fcd n = Inr raw"
  by (auto simp: adjust_forecast_def)

lemma adjust_forecast_ramp:
  assumes "fcd \<noteq> 0" and "tpc \<noteq> 0" and "n \<noteq> 0" and "length raw = nat n"
  shows "adjust_forecast raw tpc fcd n =
         Inr (map (\<lambda>(r, a). max 0 (r - a))
                (zip raw (adjustment n (real_of_int fcd / real_of_int n) tpc)))"
  using assms
  by (simp add: adjust_forecast_def daily_change_def np_subtract_def set_column_def
      clip_lower_def length_adjustment comp_def case_prod_unfold)

lemma adjust_forecast_nth:
  assumes "fcd \<noteq> 0" and "tpc \<noteq> 0" and "n \<noteq> 0" and "length raw = nat n" and "k < nat n"
  shows "\<exists>adj. adjust_forecast raw tpc fcd n = Inr adj \<and> length adj = nat n \<and>
     adj ! k = max 0 (raw ! k - real_of_int (int k + 1) * (real_of_int fcd / real_of_int n) * tpc)"
  using assms
  by (simp add: adjust_forecast_ramp length_adjustment nth_adjustment)

lemma adjust_forecast_length:
  "adjust_forecast raw tpc fcd n = Inr adj \<Longrightarrow> length adj = length raw"
  by (auto simp: adjust_forecast_def set_column_def clip_lower_def
      split: if_splits sum.splits)

lemma adjust_forecast_nonneg:
  assumes "adjust_forecast raw tpc fcd n = Inr adj" and "i < length adj"
    and "(fcd \<noteq> 0 \<and> tpc \<noteq> 0) \<or> 0 \<le> raw ! i"
  shows "0 \<le> adj ! i"
  using assms
  by (auto simp: adjust_forecast_def set_column_def clip_lower_def
      split: if_splits sum.splits)

lemma adjust_forecast_zero_div:
  "(adjust_forecast raw tpc fcd n = Inl ZeroDivisionError) = (n = 0 \<and> fcd \<noteq> 0 \<and> tpc \<noteq> 0)"
  by (auto simp: adjust_forecast_def daily_change_def np_subtract_def set_column_def
      split: sum.splits if_splits)

lemma adjust_forecast_zero_days:
  "adjust_forecast raw tpc fcd 0 =
     (if fcd \<noteq> 0 \<and> tpc \<noteq> 0 then Inl ZeroDivisionError else Inr raw)"
  by (simp add: adjust_forecast_def daily_change_def)

lemma adjust_forecast_returns:
  assumes "n \<noteq> 0" and "length raw = nat n"
  shows "\<exists>adj. adjust_forecast raw tpc fcd n = Inr adj"
proof (cases "fcd \<noteq> 0 \<and> tpc \<noteq> 0")
  case True
  with assms show ?thesis by (simp add: adjust_forecast_ramp)
next
  case False
  then show ?thesis by (auto simp: adjust_forecast_passthrough)
qed

subsection \<open>Dates\<close>

lemma index_max_Nil: "index_max [] = None"
  by (simp add: index_max_def)

lemma index_max_Max: "s \<noteq> [] \<Longrightarrow> index_max s = Some (Max (fst ` set s))"
  by (cases s) (simp_all add: index_max_def Max.set_eq_fold [symmetric])

lemma set_sort_index: "set (sort_index rows) = set rows"
  by (simp add: sort_index_def)

lemma sort_index_Nil_iff: "sort_index rows = [] \<longleftrightarrow> rows = []"
  using set_sort_index [of rows] by (metis set_empty)

lemma sort_index_sorted: "sorted (map fst rows) \<Longrightarrow> sort_index rows = rows"
  unfolding sort_index_def
  by (induction rows) (auto simp: insort_is_Cons)

lemma day_of_next: "day_of (normalize t + day_ns) = day_of t + 1"
  by (simp add: day_of_def normalize_def day_ns_def minus_mod_eq_mult_div)

lemma last_hist_date_Inr:
  "last_hist_date s = Inr last_date \<Longrightarrow> s \<noteq> [] \<and> last_date = normalize (Max (fst ` set s))"
  by (cases "s = []") (auto simp: last_hist_date_def index_max_Nil index_max_Max)

lemma last_hist_date_returns:
  "s \<noteq> [] \<Longrightarrow> last_hist_date s = Inr (normalize (Max (fst ` set s)))"
  by (simp add: last_hist_date_def index_max_Max)

lemma last_hist_date_Nil: "last_hist_date [] = Inl AttributeError"
  by (simp add: last_hist_date_def index_max_Nil)

lemma forecast_dates_Inr:
  "forecast_dates last_date n = Inr dates \<Longrightarrow>
   0 \<le> n \<and> dates = map (\<lambda>k. last_date + day_ns + int k * day_ns) [0..<nat n]"
  by (auto simp: forecast_dates_def date_range_def split: if_splits)

lemma forecast_dates_returns:
  assumes "0 \<le> n"
  shows "\<exists>dates. forecast_dates last_date n = Inr dates \<and> length dates = nat n"
  using assms
  by (simp add: forecast_dates_def date_range_def)

subsection \<open>The script\<close>

lemma pipeline_Inr_iff:
  "pipeline rows h fcd n hw = Inr out \<longleftrightarrow>
   (\<exists>fc last_date dates adj. hw = Some fc \<and> last_hist_date (sort_index rows) = Inr last_date \<and>
      forecast_dates last_date n = Inr dates \<and> length fc = length dates \<and>
      adjust_forecast fc (traffic_per_customer (sort_index rows) h) fcd n = Inr adj \<and>
      out = \<lparr>series = sort_index rows,
             forecast_df = \<lparr>time_sec = dates, Forecast_raw = fc, Adjusted = adj\<rparr>,
             traffic_per_customer_out = traffic_per_customer (sort_index rows) h\<rparr>)"
  by (auto simp: pipeline_def Let_def split: option.splits sum.splits)

lemma forecaster_error_propagates:
  "rows \<noteq> [] \<Longrightarrow> pipeline rows h fcd n None = Inl ForecasterError"
  by (simp add: pipeline_def last_hist_date_returns sort_index_Nil_iff)

lemma empty_table_error:
  "pipeline [] h fcd n hw = Inl AttributeError"
  by (simp add: pipeline_def sort_index_def last_hist_date_Nil)

lemma pipeline_returns:
  assumes "rows \<noteq> []" and "1 \<le> n" and "length fc = nat n"
  shows "\<exists>out. pipeline rows h fcd n (Some fc) = Inr out"
proof -
  let ?last = "normalize (Max (fst ` set (sort_index rows)))"
  from assms have "last_hist_date (sort_index rows) = Inr ?last"
    by (intro last_hist_date_returns) (simp add: sort_index_Nil_iff)
  moreover from assms obtain dates where
    "forecast_dates ?last n = Inr dates" "length dates = nat n"
    using forecast_dates_returns [of n ?last] by auto
  moreover from assms obtain adj where
    "adjust_forecast fc (traffic_per_customer (sort_index rows) h) fcd n = Inr adj"
    using adjust_forecast_returns [of n fc] by fastforce
  ultimately show ?thesis
    using assms(3) by (simp add: pipeline_Inr_iff)
qed

subsection \<open>The estimator\<close>

lemma present_Nil_iff: "present w = [] \<longleftrightarrow> list_all (\<lambda>c. c = None) w"
  by (induction w) (auto simp: present_def split: option.splits)

lemma spec_mean_eq: "spec_mean w = mean_pd w"
  by (simp add: spec_mean_def mean_pd_def Let_def present_Nil_iff)

lemma head_window: "take (min 14 (length xs)) xs = head_pd 14 xs"
  by (simp add: head_pd_def min_def)

lemma tail_window: "drop (length xs - min 14 (length xs)) xs = tail_pd 14 xs"
  by (simp add: tail_pd_def min_def)

subsection \<open>The sample inputs\<close>

lemma step_tpc: "traffic_per_customer step_rows 1 = 1"
  by code_simp

lemma step_sorted_series: "sort_index step_rows = step_rows"
  by code_simp

lemma step_run: "pipeline step_rows 1 1 2 (Some [-5, 7]) = Inr step_result"
  by code_simp

lemma passthrough_run:
  "pipeline [(0, Some 5)] 425000 0 1 (Some [-1]) = Inr passthrough_result"
  by code_simp

lemma ramp_rows_shape:
  "length ramp_rows = 60 \<and> map snd ramp_rows = map (\<lambda>k. Some (100 + real k)) [0..<60]"
  by (simp add: ramp_rows_def comp_def)

lemma sorted_ramp: "sorted (map fst ramp_rows)"
  unfolding ramp_rows_def
  by (simp add: sorted_map sorted_wrt_iff_nth_less day_ns_def comp_def)

lemma ramp_sorted_series: "sort_index ramp_rows = ramp_rows"
  by (rule sort_index_sorted [OF sorted_ramp])

lemma ramp_start_mean: "start_mean ramp_rows = Some 106.5"
  by code_simp

lemma ramp_end_mean: "end_mean ramp_rows = Some 152.5"
  by code_simp

lemma ramp_tpc: "traffic_per_customer ramp_rows 100000 = -0.00046"
  by (simp add: traffic_per_customer_def ramp_start_mean ramp_end_mean)

lemma ramp_run:
  assumes "length fc = 10"
  shows "\<exists>dates adj. pipeline ramp_rows 100000 fcd 10 (Some fc) =
           Inr \<lparr>series = ramp_rows,
                forecast_df = \<lparr>time_sec = dates, Forecast_raw = fc, Adjusted = adj\<rparr>,
                traffic_per_customer_out = - 0.00046\<rparr>
         \<and> length adj = 10"
proof -
  have ne: "ramp_rows \<noteq> []"
    using ramp_rows_shape by auto
  have l10: "length fc = nat 10"
    using assms by simp
  from pipeline_returns [OF ne _ l10, of 100000 fcd] obtain out where
    ret: "pipeline ramp_rows 100000 fcd 10 (Some fc) = Inr out"
    by auto
  then obtain dates adj where
    run: "adjust_forecast fc (- 0.00046) fcd 10 = Inr adj"
    and out: "out = \<lparr>series = ramp_rows,
             forecast_df = \<lparr>time_sec = dates, Forecast_raw = fc, Adjusted = adj\<rparr>,
             traffic_per_customer_out = - 0.00046\<rparr>"
    unfolding pipeline_Inr_iff ramp_sorted_series ramp_tpc by blast
  have "length adj = 10"
    using adjust_forecast_length [OF run] assms by simp
  with ret out show ?thesis by blast
qed

section \<open>The claims\<close>

subsection \<open>C1: non-negativity of the adjusted column\<close>

text \<open>
  C1 says that every entry of the adjusted column is at least 0 in every run, the pass-through
  case included. The script clips only inside the branch that applies the adjustment; when
  \<open>FORECAST_CUSTOMER_DROP\<close> is 0 the adjusted column is the raw forecast as it is. Here lines
  56 to 62 get a raw forecast of three days that falls below 0 on the third, as the additive
  trend of a falling series does, with a coefficient of \<open>1/2\<close> and a customer change of 0: the
  third adjusted value is \<open>-1\<close>.
\<close>

theorem C1_passthrough_keeps_negative:
  "adjust_forecast [2, 1/2, -1] (1/2) 0 3 = Inr [2, 1/2, -1]
   \<and> [2, 1/2, -1 :: real] ! 2 < 0"
  by (simp add: adjust_forecast_def)

text \<open>
  C1 as amended: in a run that returns, an entry of the adjusted column is at least 0 when the
  adjustment is applied (\<open>FORECAST_CUSTOMER_DROP\<close> and the coefficient are both not 0), and in
  the pass-through case when the raw forecast value of that period is at least 0.
\<close>

theorem C1_adjusted_nonneg:
  assumes "pipeline rows h fcd n hw = Inr out"
    and "i < length (Adjusted (forecast_df out))"
    and "(fcd \<noteq> 0 \<and> traffic_per_customer_out out \<noteq> 0)
         \<or> 0 \<le> Forecast_raw (forecast_df out) ! i"
  shows "0 \<le> Adjusted (forecast_df out) ! i"
proof -
  from assms(1) obtain fc dates adj where
    run: "adjust_forecast fc (traffic_per_customer (sort_index rows) h) fcd n = Inr adj"
    and out: "out = \<lparr>series = sort_index rows,
             forecast_df = \<lparr>time_sec = dates, Forecast_raw = fc, Adjusted = adj\<rparr>,
             traffic_per_customer_out = traffic_per_customer (sort_index rows) h\<rparr>"
    unfolding pipeline_Inr_iff by blast
  from assms(2,3) show ?thesis
    unfolding out using adjust_forecast_nonneg [OF run, of i] by simp
qed

theorem C1_adjusted_nonneg_witness:
  "\<exists>out. pipeline ramp_rows 100000 50000 10
            (Some [160, 161, 162, 163, 164, 165, 166, 167, 168, 169]) = Inr out
     \<and> 0 < length (Adjusted (forecast_df out))
     \<and> (50000::int) \<noteq> 0 \<and> traffic_per_customer_out out \<noteq> 0
     \<and> 0 \<le> Adjusted (forecast_df out) ! 0"
proof -
  have "length [160, 161, 162, 163, 164, 165, 166, 167, 168, 169 :: real] = 10"
    by simp
  from ramp_run [OF this, of 50000] obtain out where
    ret: "pipeline ramp_rows 100000 50000 10
            (Some [160, 161, 162, 163, 164, 165, 166, 167, 168, 169]) = Inr out"
    and tpc: "traffic_per_customer_out out = - 0.00046"
    and len: "length (Adjusted (forecast_df out)) = 10"
    by fastforce
  have pos: "0 < length (Adjusted (forecast_df out))"
    using len by simp
  have sig: "((50000::int) \<noteq> 0 \<and> traffic_per_customer_out out \<noteq> 0)
      \<or> 0 \<le> Forecast_raw (forecast_df out) ! 0"
    using tpc by simp
  from C1_adjusted_nonneg [OF ret pos sig] ret pos tpc show ?thesis
    by auto
qed

subsection \<open>C2: the estimator against its reference\<close>

text \<open>
  C2: the traffic per customer computed by lines 46 to 53 equals the reference definition:
  with \<open>n\<close> observations, the mean of the first \<open>min(14, n)\<close> minus the mean of the last
  \<open>min(14, n)\<close>, divided by the historical customer change, and 0 when that change is 0 or a
  mean is undefined.
\<close>

theorem C2_estimator_refines_reference:
  "traffic_per_customer s h = sensitivity_reference (map snd s) h"
proof -
  have hd: "spec_mean (take (min 14 (length s)) (map snd s)) = start_mean s"
    using head_window [of "map snd s"]
    by (simp add: spec_mean_eq start_mean_def head_pd_def take_map)
  have tl: "spec_mean (drop (length s - min 14 (length s)) (map snd s)) = end_mean s"
    using tail_window [of "map snd s"]
    by (simp add: spec_mean_eq end_mean_def tail_pd_def drop_map)
  show ?thesis
    by (simp add: traffic_per_customer_def sensitivity_reference_def Let_def hd tl
        split: option.splits)
qed

theorem C2_estimator_refines_reference_witness:
  "sensitivity_reference (map snd step_rows) 1 = 1"
  unfolding C2_estimator_refines_reference [symmetric] by (rule step_tpc)

subsection \<open>C3: pass-through\<close>

text \<open>
  C3: when \<open>FORECAST_CUSTOMER_DROP\<close> is 0 or the coefficient is 0, the adjuster returns the
  raw forecast column as it is, whatever its values and its length; in a run of the script
  that returns, the adjusted column then is the raw forecast column, value for value.
\<close>

theorem C3_passthrough_identity:
  "(fcd = 0 \<or> tpc = 0 \<longrightarrow> adjust_forecast raw tpc fcd n = Inr raw)
   \<and> (pipeline rows h fcd n hw = Inr out \<and> (fcd = 0 \<or> traffic_per_customer_out out = 0) \<longrightarrow>
        Adjusted (forecast_df out) = Forecast_raw (forecast_df out))"
proof (intro conjI impI)
  assume "fcd = 0 \<or> tpc = 0"
  then show "adjust_forecast raw tpc fcd n = Inr raw"
    by (rule adjust_forecast_passthrough)
next
  assume a: "pipeline rows h fcd n hw = Inr out \<and> (fcd = 0 \<or> traffic_per_customer_out out = 0)"
  then obtain fc dates adj where
    run: "adjust_forecast fc (traffic_per_customer (sort_index rows) h) fcd n = Inr adj"
    and out: "out = \<lparr>series = sort_index rows,
             forecast_df = \<lparr>time_sec = dates, Forecast_raw = fc, Adjusted = adj\<rparr>,
             traffic_per_customer_out = traffic_per_customer (sort_index rows) h\<rparr>"
    unfolding pipeline_Inr_iff by blast
  from a have "fcd = 0 \<or> traffic_per_customer (sort_index rows) h = 0"
    by (simp add: out)
  from adjust_forecast_passthrough [OF this] run have "adj = fc"
    by simp
  then show "Adjusted (forecast_df out) = Forecast_raw (forecast_df out)"
    by (simp add: out)
qed

theorem C3_passthrough_identity_witness:
  "adjust_forecast [-5, 7] 0 3 2 = Inr [-5, 7] \<and> adjust_forecast [-5, 7] 2 0 2 = Inr [-5, 7]
   \<and> pipeline [(0, Some 5)] 425000 0 1 (Some [-1]) = Inr passthrough_result
   \<and> Adjusted (forecast_df passthrough_result) = Forecast_raw (forecast_df passthrough_result)"
proof -
  have a: "(3::int) = 0 \<or> (0::real) = 0" by simp
  have b: "(0::int) = 0 \<or> (2::real) = 0" by simp
  have c: "(0::int) = 0 \<or> traffic_per_customer_out passthrough_result = 0" by simp
  note t1 = C3_passthrough_identity [of 3 0 "[-5, 7]" 2 "[]" 0 None passthrough_result]
  note t2 = C3_passthrough_identity [of 0 2 "[-5, 7]" 2 "[(0, Some 5)]" 425000 "Some [-1]"
      passthrough_result]
  note t3 = C3_passthrough_identity [of 0 2 "[-5, 7]" 1 "[(0, Some 5)]" 425000 "Some [-1]"
      passthrough_result]
  from t1 a have "adjust_forecast [-5, 7] 0 3 2 = Inr [-5, 7]" by blast
  moreover from t2 b have "adjust_forecast [-5, 7] 2 0 2 = Inr [-5, 7]" by blast
  moreover from t3 c passthrough_run have
    "Adjusted (forecast_df passthrough_result) = Forecast_raw (forecast_df passthrough_result)"
    by blast
  ultimately show ?thesis using passthrough_run by blast
qed

subsection \<open>C4: the ramp\<close>

text \<open>
  C4: when \<open>FORECAST_CUSTOMER_DROP\<close> and the coefficient are both not 0, and the raw forecast
  has \<open>FORECAST_DAYS\<close> entries, the adjuster returns, and for every period \<open>i\<close> from 1 to
  \<open>FORECAST_DAYS\<close> the adjusted value is
  \<open>max(0, raw_i - i * (FORECAST_CUSTOMER_DROP / FORECAST_DAYS) * coefficient)\<close>.
\<close>

theorem C4_ramp_formula:
  assumes "fcd \<noteq> 0" and "tpc \<noteq> 0" and "1 \<le> n" and "length raw = nat n"
  shows "\<exists>adj. adjust_forecast raw tpc fcd n = Inr adj \<and> length adj = nat n \<and>
    (\<forall>i. 1 \<le> i \<and> i \<le> n \<longrightarrow>
       adj ! nat (i - 1) =
         max 0 (raw ! nat (i - 1) - real_of_int i * (real_of_int fcd / real_of_int n) * tpc))"
proof -
  let ?f = "map (\<lambda>(r, a). max 0 (r - a))
              (zip raw (adjustment n (real_of_int fcd / real_of_int n) tpc))"
  have run: "adjust_forecast raw tpc fcd n = Inr ?f"
    using assms by (intro adjust_forecast_ramp) auto
  have len: "length ?f = nat n"
    using assms by (simp add: length_adjustment)
  have "?f ! nat (i - 1) =
      max 0 (raw ! nat (i - 1) - real_of_int i * (real_of_int fcd / real_of_int n) * tpc)"
    if "1 \<le> i" "i \<le> n" for i
  proof -
    have k: "nat (i - 1) < nat n" using that by linarith
    have "int (nat (i - 1)) + 1 = i" using that by simp
    with k assms(4) show ?thesis
      by (simp add: length_adjustment nth_adjustment)
  qed
  with run len show ?thesis by blast
qed

theorem C4_ramp_formula_witness:
  "(4::int) \<noteq> 0 \<and> (2::real) \<noteq> 0 \<and> (1::int) \<le> 2 \<and> length [10, 1::real] = nat 2
   \<and> (\<exists>adj. adjust_forecast [10, 1] 2 4 2 = Inr adj \<and> adj ! 0 = 6 \<and> adj ! 1 = 0)"
proof -
  have h: "(4::int) \<noteq> 0" "(2::real) \<noteq> 0" "(1::int) \<le> 2" "length [10, 1::real] = nat 2"
    by simp_all
  from C4_ramp_formula [OF h] obtain adj where
    run: "adjust_forecast [10, 1] 2 4 2 = Inr adj"
    and nth: "\<forall>i. 1 \<le> i \<and> i \<le> 2 \<longrightarrow>
       adj ! nat (i - 1) =
         max 0 ([10, 1] ! nat (i - 1) - real_of_int i * (real_of_int 4 / real_of_int 2) * 2)"
    by blast
  from nth [rule_format, of 1] have "adj ! 0 = 6" by simp
  moreover from nth [rule_format, of 2] have "adj ! 1 = 0" by simp
  ultimately show ?thesis using run by simp
qed

subsection \<open>C6: the horizon\<close>

text \<open>
  C6: in every run that returns, the raw forecast, the adjusted forecast and the dates have
  exactly \<open>FORECAST_DAYS\<close> entries each, every date is one day after the date before it, and
  the first date is midnight of the day after the day of the last historical timestamp.
\<close>

theorem C6_horizon_contract:
  assumes "pipeline rows h fcd n hw = Inr out"
  shows "int (length (Forecast_raw (forecast_df out))) = n \<and>
         int (length (Adjusted (forecast_df out))) = n \<and>
         int (length (time_sec (forecast_df out))) = n \<and>
         rows \<noteq> [] \<and>
         (\<forall>k. Suc k < length (time_sec (forecast_df out)) \<longrightarrow>
              time_sec (forecast_df out) ! Suc k = time_sec (forecast_df out) ! k + day_ns) \<and>
         (1 \<le> n \<longrightarrow>
              time_sec (forecast_df out) ! 0 = normalize (Max (fst ` set rows)) + day_ns \<and>
              day_of (time_sec (forecast_df out) ! 0) = day_of (Max (fst ` set rows)) + 1)"
proof -
  let ?s = "sort_index rows"
  from assms obtain fc d0 dates adj where
    lh: "last_hist_date ?s = Inr d0"
    and fd: "forecast_dates d0 n = Inr dates"
    and len: "length fc = length dates"
    and run: "adjust_forecast fc (traffic_per_customer ?s h) fcd n = Inr adj"
    and out: "out = \<lparr>series = ?s,
             forecast_df = \<lparr>time_sec = dates, Forecast_raw = fc, Adjusted = adj\<rparr>,
             traffic_per_customer_out = traffic_per_customer ?s h\<rparr>"
    unfolding pipeline_Inr_iff by blast
  from last_hist_date_Inr [OF lh] have ne: "?s \<noteq> []"
    and d0: "d0 = normalize (Max (fst ` set rows))"
    by (simp_all add: set_sort_index)
  from forecast_dates_Inr [OF fd] have n: "0 \<le> n"
    and dates: "dates = map (\<lambda>k. d0 + day_ns + int k * day_ns) [0..<nat n]"
    by simp_all
  from ne have rows: "rows \<noteq> []" by (simp add: sort_index_Nil_iff)
  have ld: "length dates = nat n" by (simp add: dates)
  have la: "length adj = length fc" by (rule adjust_forecast_length [OF run])
  have step: "dates ! Suc k = dates ! k + day_ns" if "Suc k < length dates" for k
    using that by (simp add: dates algebra_simps)
  have first: "dates ! 0 = normalize (Max (fst ` set rows)) + day_ns" if "1 \<le> n"
    using that by (simp add: dates d0)
  show ?thesis
    using n ld la len rows step first
    by (simp add: out day_of_next)
qed

theorem C6_horizon_contract_witness:
  "pipeline step_rows 1 1 2 (Some [-5, 7]) = Inr step_result
   \<and> int (length (Forecast_raw (forecast_df step_result))) = 2
   \<and> int (length (Adjusted (forecast_df step_result))) = 2
   \<and> time_sec (forecast_df step_result) ! Suc 0 = time_sec (forecast_df step_result) ! 0 + day_ns
   \<and> day_of (time_sec (forecast_df step_result) ! 0) = day_of (Max (fst ` set step_rows)) + 1"
proof -
  note c = C6_horizon_contract [OF step_run]
  have one: "Suc 0 < length (time_sec (forecast_df step_result))"
    by (simp add: step_result_def)
  have two: "(1::int) \<le> 2" by simp
  from c have "int (length (Forecast_raw (forecast_df step_result))) = 2" by blast
  moreover from c have "int (length (Adjusted (forecast_df step_result))) = 2" by blast
  moreover from c one have
    "time_sec (forecast_df step_result) ! Suc 0 = time_sec (forecast_df step_result) ! 0 + day_ns"
    by blast
  moreover from c two have
    "day_of (time_sec (forecast_df step_result) ! 0) = day_of (Max (fst ` set step_rows)) + 1"
    by blast
  ultimately show ?thesis using step_run by blast
qed

subsection \<open>C7: both signs positive\<close>

text \<open>
  C7 says that with a positive coefficient and a positive customer change the adjusted value
  never exceeds the raw value, clipped periods included. The clip at 0 raises a negative raw
  value: with the raw forecast \<open>-5\<close>, coefficient 1, customer change 1 and one day, the
  adjusted value is 0.
\<close>

theorem C7_clip_exceeds_negative_raw:
  "adjust_forecast [-5] 1 1 1 = Inr [0] \<and> \<not> ([0::real] ! 0 \<le> [-5] ! 0)"
  by (simp add: adjust_forecast_def daily_change_def np_subtract_def set_column_def
      clip_lower_def adjustment_def cum_change_def)

text \<open>
  C7 as amended: with a positive coefficient and a positive customer change, on a raw forecast
  of \<open>FORECAST_DAYS\<close> entries, the adjustment is non-decreasing in the period, and every
  adjusted value is at most \<open>max(0, raw)\<close>: at most the raw value wherever the raw value is at
  least 0, and 0 wherever the raw value is below 0.
\<close>

theorem C7_positive_ramp:
  assumes "0 < tpc" and "0 < fcd" and "1 \<le> n" and "length raw = nat n"
  shows "\<exists>adj. adjust_forecast raw tpc fcd n = Inr adj \<and>
           sorted (adjustment n (real_of_int fcd / real_of_int n) tpc) \<and>
           (\<forall>k<length raw. adj ! k \<le> max 0 (raw ! k) \<and> (0 \<le> raw ! k \<longrightarrow> adj ! k \<le> raw ! k)
              \<and> (raw ! k < 0 \<longrightarrow> adj ! k = 0))"
proof -
  let ?dc = "real_of_int fcd / real_of_int n"
  let ?f = "map (\<lambda>(r, a). max 0 (r - a)) (zip raw (adjustment n ?dc tpc))"
  have run: "adjust_forecast raw tpc fcd n = Inr ?f"
    using assms by (intro adjust_forecast_ramp) auto
  have dc: "0 < ?dc" using assms by simp
  have mono: "sorted (adjustment n ?dc tpc)"
    using dc assms(1) by (intro sorted_adjustment) auto
  have entry: "?f ! k \<le> max 0 (raw ! k) \<and> (raw ! k < 0 \<longrightarrow> ?f ! k = 0)"
    if "k < length raw" for k
  proof -
    have a: "0 \<le> real_of_int (int k + 1) * ?dc * tpc"
      using dc assms(1) by (intro mult_nonneg_nonneg) auto
    have "?f ! k = max 0 (raw ! k - real_of_int (int k + 1) * ?dc * tpc)"
      using that assms(4) by (simp add: length_adjustment nth_adjustment)
    with a show ?thesis by (simp add: max_def)
  qed
  have "\<forall>k<length raw. ?f ! k \<le> max 0 (raw ! k) \<and> (0 \<le> raw ! k \<longrightarrow> ?f ! k \<le> raw ! k)
      \<and> (raw ! k < 0 \<longrightarrow> ?f ! k = 0)"
  proof (intro allI impI conjI)
    fix k assume k: "k < length raw"
    from entry [OF k] show "?f ! k \<le> max 0 (raw ! k)" by blast
    from entry [OF k] show "?f ! k \<le> raw ! k" if "0 \<le> raw ! k"
      using that by (simp add: max_def)
    from entry [OF k] show "?f ! k = 0" if "raw ! k < 0"
      using that by blast
  qed
  with run mono show ?thesis by blast
qed

theorem C7_positive_ramp_witness:
  "(0::real) < 3 \<and> (0::int) < 6 \<and> (1::int) \<le> 2 \<and> length [20, -4::real] = nat 2
   \<and> (\<exists>adj. adjust_forecast [20, -4] 3 6 2 = Inr adj \<and> adj ! 0 \<le> 20 \<and> adj ! Suc 0 = 0)
   \<and> sorted (adjustment 2 (real_of_int 6 / real_of_int 2) 3)"
proof -
  have h: "(0::real) < 3" "(0::int) < 6" "(1::int) \<le> 2" "length [20, -4::real] = nat 2"
    by simp_all
  from C7_positive_ramp [OF h] obtain adj where
    run: "adjust_forecast [20, -4] 3 6 2 = Inr adj"
    and mono: "sorted (adjustment 2 (real_of_int 6 / real_of_int 2) 3)"
    and le: "\<And>k. k < length [20, -4::real] \<Longrightarrow> adj ! k \<le> max 0 ([20, -4] ! k)"
    and zero: "\<And>k. k < length [20, -4::real] \<Longrightarrow> [20, -4::real] ! k < 0 \<Longrightarrow> adj ! k = 0"
    by blast
  have "adj ! 0 \<le> 20" using le [of 0] by simp
  moreover have "adj ! Suc 0 = 0" using zero [of "Suc 0"] by simp
  ultimately have
    "\<exists>adj. adjust_forecast [20, -4] 3 6 2 = Inr adj \<and> adj ! 0 \<le> 20 \<and> adj ! Suc 0 = 0"
    using run by blast
  with h mono show ?thesis by blast
qed

subsection \<open>C8: the 60-day scenario\<close>

text \<open>
  C8: on the 60 daily values 100, ..., 159 with a historical customer change of 100000, a
  forecast customer change of 50000 and a horizon of 10 days, the mean of the first 14 values
  is 106.5, the mean of the last 14 is 152.5, the coefficient is
  \<open>(106.5 - 152.5) / 100000 = -0.00046\<close>, and, whatever 10 values the forecaster returns, the
  script returns and every adjusted value is strictly above the raw value.
\<close>

theorem C8_concrete_scenario:
  assumes "length fc = 10"
  shows "\<exists>out. pipeline ramp_rows 100000 50000 10 (Some fc) = Inr out \<and>
         start_mean (series out) = Some 106.5 \<and> end_mean (series out) = Some 152.5 \<and>
         traffic_per_customer_out out = (106.5 - 152.5) / 100000 \<and>
         traffic_per_customer_out out = -0.00046 \<and>
         Forecast_raw (forecast_df out) = fc \<and>
         length (Adjusted (forecast_df out)) = 10 \<and>
         (\<forall>i<10. Adjusted (forecast_df out) ! i > Forecast_raw (forecast_df out) ! i)"
proof -
  have ne: "ramp_rows \<noteq> []"
    using ramp_rows_shape by auto
  have l10: "length fc = nat 10"
    using assms by simp
  from pipeline_returns [OF ne _ l10, of 100000 50000] obtain out where
    ret: "pipeline ramp_rows 100000 50000 10 (Some fc) = Inr out"
    by auto
  then obtain dates adj where
    run: "adjust_forecast fc (- 0.00046) 50000 10 = Inr adj"
    and out: "out = \<lparr>series = ramp_rows,
             forecast_df = \<lparr>time_sec = dates, Forecast_raw = fc, Adjusted = adj\<rparr>,
             traffic_per_customer_out = - 0.00046\<rparr>"
    unfolding pipeline_Inr_iff ramp_sorted_series ramp_tpc by blast
  have above: "adj ! i > fc ! i" if "i < 10" for i
  proof -
    have "i < nat 10" using that by simp
    from adjust_forecast_nth [of 50000 "- 0.00046" 10 fc i, OF _ _ _ l10 this] run
    have "adj ! i = max 0 (fc ! i
        - real_of_int (int i + 1) * (real_of_int 50000 / real_of_int 10) * (- 0.00046))"
      by simp
    moreover have
      "real_of_int (int i + 1) * (real_of_int 50000 / real_of_int 10) * (- 0.00046) < 0"
      by (simp add: mult_less_0_iff)
    ultimately show ?thesis by linarith
  qed
  have "length adj = 10"
    using adjust_forecast_length [OF run] assms by simp
  with above have "start_mean (series out) = Some 106.5 \<and> end_mean (series out) = Some 152.5 \<and>
         traffic_per_customer_out out = (106.5 - 152.5) / 100000 \<and>
         traffic_per_customer_out out = -0.00046 \<and>
         Forecast_raw (forecast_df out) = fc \<and>
         length (Adjusted (forecast_df out)) = 10 \<and>
         (\<forall>i<10. Adjusted (forecast_df out) ! i > Forecast_raw (forecast_df out) ! i)"
    by (simp add: out ramp_start_mean ramp_end_mean)
  with ret show ?thesis by blast
qed

theorem C8_concrete_scenario_witness:
  "length [160, 161, 162, 163, 164, 165, 166, 167, 168, 169 :: real] = 10
   \<and> (\<exists>out. pipeline ramp_rows 100000 50000 10
              (Some [160, 161, 162, 163, 164, 165, 166, 167, 168, 169]) = Inr out
         \<and> traffic_per_customer_out out = -0.00046
         \<and> Adjusted (forecast_df out) ! 0 > 160)"
proof -
  have h: "length [160, 161, 162, 163, 164, 165, 166, 167, 168, 169 :: real] = 10"
    by simp
  from C8_concrete_scenario [OF h] obtain out where
    ret: "pipeline ramp_rows 100000 50000 10
            (Some [160, 161, 162, 163, 164, 165, 166, 167, 168, 169]) = Inr out"
    and tpc: "traffic_per_customer_out out = -0.00046"
    and raw: "Forecast_raw (forecast_df out) = [160, 161, 162, 163, 164, 165, 166, 167, 168, 169]"
    and above: "\<And>i. i < 10 \<Longrightarrow>
       Adjusted (forecast_df out) ! i > Forecast_raw (forecast_df out) ! i"
    by blast
  from above [of 0] raw have "Adjusted (forecast_df out) ! 0 > 160" by simp
  with h ret tpc show ?thesis by blast
qed

subsection \<open>C9: what ingestion hands over\<close>

text \<open>
  C9 says that ingestion sorts and removes duplicate timestamps, so that the timestamps of the
  series are strictly ascending. Line 32 sorts and removes nothing: two uploaded rows with the
  same timestamp are both in the series.
\<close>

theorem C9_duplicates_kept:
  "sort_index [(0, Some 1), (0, Some 2)] = [(0, Some 1), (0, Some 2)]
   \<and> \<not> distinct (map fst (sort_index [(0, Some 1), (0, Some 2)]))
   \<and> \<not> sorted_wrt (<) (map fst (sort_index [(0, Some 1), (0, Some 2)]))"
  by (simp add: sort_index_def)

text \<open>
  C9 as amended: the series has the uploaded rows, each as often as it was uploaded, with the
  timestamps in ascending order; they are strictly ascending, without duplicates, exactly when
  the uploaded timestamps are distinct.
\<close>

theorem C9_sorted_same_rows:
  "sorted (map fst (sort_index rows)) \<and> mset (sort_index rows) = mset rows \<and>
   (sorted_wrt (<) (map fst (sort_index rows)) = distinct (map fst rows))"
proof -
  have "distinct (map fst (sort_index rows)) = distinct (map fst rows)"
    unfolding sort_index_def
    by (metis mset_map mset_sort mset_eq_imp_distinct_iff)
  then show ?thesis
    by (simp add: sort_index_def strict_sorted_iff)
qed

theorem C9_sorted_same_rows_witness:
  "sorted (map fst (sort_index [(2, None), (1, Some 3), (2, Some 4)]))
   \<and> mset (sort_index [(2, None), (1, Some 3), (2, Some 4)])
       = mset [(2, None), (1, Some 3), (2, Some 4)]
   \<and> \<not> sorted_wrt (<) (map fst (sort_index [(2, None), (1, Some 3), (2, Some 4)]))"
  using C9_sorted_same_rows [of "[(2, None), (1, Some 3), (2, Some 4)]"]
  by simp

subsection \<open>C10: the division by the horizon\<close>

text \<open>
  C10 says that with \<open>FORECAST_DAYS\<close> 0, a customer change and a coefficient that are not 0,
  the run reaches the division by zero of line 58. Line 40 asks the forecaster for
  \<open>FORECAST_DAYS\<close> values before that, and a forecaster that rejects a horizon of 0 ends the
  run there: on the 60-day series with a horizon of 0 the run ends with the forecaster's
  error, not with ZeroDivisionError, although the customer change and the coefficient are
  not 0.
\<close>

theorem C10_forecaster_error_comes_first:
  "pipeline ramp_rows 100000 50000 0 None = Inl ForecasterError
   \<and> pipeline ramp_rows 100000 50000 0 None \<noteq> Inl ZeroDivisionError
   \<and> (50000::int) \<noteq> 0
   \<and> traffic_per_customer (sort_index ramp_rows) 100000 \<noteq> 0"
proof -
  have "ramp_rows \<noteq> []"
    using ramp_rows_shape by auto
  then show ?thesis
    by (simp add: forecaster_error_propagates ramp_sorted_series ramp_tpc)
qed

text \<open>
  C10 as amended: line 58 divides by \<open>FORECAST_DAYS\<close> with no guard. Lines 56 to 62 taken on
  their own raise ZeroDivisionError exactly when \<open>FORECAST_DAYS\<close> is 0 and both the customer
  change and the coefficient are not 0. With \<open>FORECAST_DAYS\<close> at least 1 no run of the script
  ends in that error. A run of the script ends in it exactly when \<open>FORECAST_DAYS\<close> is 0, the
  table has a row, the customer change and the coefficient are not 0, and the forecaster
  returned a forecast (an empty one) for the horizon of 0; when the forecaster raises, the
  run ends with the forecaster's error.
\<close>

theorem C10_zero_division:
  "(adjust_forecast raw tpc fcd n = Inl ZeroDivisionError) = (n = 0 \<and> fcd \<noteq> 0 \<and> tpc \<noteq> 0)
   \<and> (1 \<le> n \<longrightarrow> pipeline rows h fcd n hw \<noteq> Inl ZeroDivisionError)
   \<and> (pipeline rows h fcd n hw = Inl ZeroDivisionError) =
       (n = 0 \<and> hw = Some [] \<and> rows \<noteq> [] \<and> fcd \<noteq> 0
        \<and> traffic_per_customer (sort_index rows) h \<noteq> 0)
   \<and> (rows \<noteq> [] \<longrightarrow> pipeline rows h fcd n None = Inl ForecasterError)"
proof -
  let ?s = "sort_index rows"
  let ?t = "traffic_per_customer ?s h"
  have reach: "(pipeline rows h fcd n hw = Inl ZeroDivisionError) =
       (n = 0 \<and> hw = Some [] \<and> rows \<noteq> [] \<and> fcd \<noteq> 0 \<and> ?t \<noteq> 0)"
  proof (cases "rows = []")
    case True
    then show ?thesis by (simp add: empty_table_error)
  next
    case ne: False
    then have lh: "last_hist_date ?s = Inr (normalize (Max (fst ` set ?s)))"
      by (intro last_hist_date_returns) (simp add: sort_index_Nil_iff)
    show ?thesis
    proof (cases hw)
      case None
      with ne show ?thesis by (simp add: forecaster_error_propagates)
    next
      case (Some fc)
      show ?thesis
      proof (cases "n = 0")
        case True
        then have "forecast_dates d 0 = Inr []" for d
          by (simp add: forecast_dates_def date_range_def)
        with True ne Some lh show ?thesis
          by (auto simp: pipeline_def Let_def adjust_forecast_zero_days)
      next
        case False
        then have "adjust_forecast fc ?t fcd n \<noteq> Inl ZeroDivisionError"
          by (simp add: adjust_forecast_zero_div)
        with False Some lh show ?thesis
          by (auto simp: pipeline_def Let_def forecast_dates_def date_range_def
              split: sum.splits if_splits)
      qed
    qed
  qed
  have "pipeline rows h fcd n hw \<noteq> Inl ZeroDivisionError" if "1 \<le> n"
    using that by (simp add: reach)
  with reach show ?thesis
    by (simp add: adjust_forecast_zero_div forecaster_error_propagates)
qed

theorem C10_zero_division_witness:
  "adjust_forecast [] 1 1 0 = Inl ZeroDivisionError
   \<and> (1::int) \<le> 2 \<and> pipeline step_rows 1 1 2 (Some [-5, 7]) \<noteq> Inl ZeroDivisionError
   \<and> step_rows \<noteq> [] \<and> pipeline step_rows 1 1 0 None = Inl ForecasterError
   \<and> pipeline step_rows 1 1 0 None \<noteq> Inl ZeroDivisionError"
proof -
  note c = C10_zero_division [of "[]" 1 1 0 step_rows 1 None]
  note d = C10_zero_division [of "[]" 1 1 2 step_rows 1 "Some [-5, 7]"]
  have two: "(1::int) \<le> 2" by simp
  have ne: "step_rows \<noteq> []" by (simp add: step_rows_def)
  have one: "(1::int) \<noteq> 0" "(1::real) \<noteq> 0" by simp_all
  from c one have "adjust_forecast [] 1 1 0 = Inl ZeroDivisionError" by blast
  moreover from d two have "pipeline step_rows 1 1 2 (Some [-5, 7]) \<noteq> Inl ZeroDivisionError"
    by blast
  moreover from c ne have "pipeline step_rows 1 1 0 None = Inl ForecasterError" by blast
  moreover from c have "pipeline step_rows 1 1 0 None \<noteq> Inl ZeroDivisionError" by blast
  ultimately show ?thesis using two ne by blast
qed

end
